theory Spec2Isabelle
  imports Main
begin

section \<open>Data model\<close>

text \<open>
  The client-side session lifecycle of the Blossom application: the session store
  (\<^verbatim>\<open>src/store/authStore.ts\<close>), the unified key-value storage
  (\<^verbatim>\<open>src/utils/storage.ts\<close>), the API client with its two interceptors
  (\<^verbatim>\<open>src/services/api.ts\<close>) and the root layout with startup resolution and the
  route guard (\<^verbatim>\<open>app/_layout.tsx\<close>).
\<close>

subsection \<open>The session state\<close>

text \<open>\<^verbatim>\<open>interface User\<close>; an optional field is an \<open>option\<close>.\<close>

record User =
  user_id :: string
  email :: string
  name :: string
  picture :: "string option"
  bio :: "string option"
  pregnancy_stage :: "string option"
  due_date :: "string option"
  children_count :: int
  interests :: "string list"
  is_premium :: bool
  created_at :: string

text \<open>The data fields of \<^verbatim>\<open>interface AuthState\<close>; \<open>None\<close> is \<^verbatim>\<open>null\<close>.\<close>

record AuthState =
  user :: "User option"
  token :: "string option"
  isLoading :: bool
  isAuthenticated :: bool

text \<open>The state the store is created with.\<close>

definition initialState :: AuthState where
  "initialState = \<lparr>user = None, token = None, isLoading = True, isAuthenticated = False\<rparr>"

text \<open>
  JavaScript truthiness, as used by \<^verbatim>\<open>if (token)\<close> and \<^verbatim>\<open>!!token\<close> on a
  \<^verbatim>\<open>string | null\<close>: \<^verbatim>\<open>null\<close> and the empty string are falsy. An object
  (\<^verbatim>\<open>!!user\<close>) is always truthy.
\<close>

definition truthy :: "string option \<Rightarrow> bool" where
  "truthy t = (case t of None \<Rightarrow> False | Some s \<Rightarrow> s \<noteq> [])"

definition truthy_user :: "User option \<Rightarrow> bool" where
  "truthy_user u = (case u of None \<Rightarrow> False | Some _ \<Rightarrow> True)"

subsection \<open>Requests, responses and rejections\<close>

text \<open>
  An axios request configuration: the header table holds what
  \<^verbatim>\<open>config.headers\<close> holds; the body is the serialised payload, if any.
\<close>

record Request =
  http_method :: string
  url :: string
  headers :: "string \<rightharpoonup> string"
  body :: "string option"

text \<open>
  A response. The only response body that the modelled code reads is the profile that
  startup resolution hands to \<^verbatim>\<open>setUser\<close>; \<open>None\<close> is a \<^verbatim>\<open>null\<close> body.
\<close>

record Response =
  status :: nat
  data :: "User option"

text \<open>
  The failure axios rejects with: \<^verbatim>\<open>error.response\<close> is absent when no response
  arrived (a transport fault).
\<close>

record AxiosError =
  message :: string
  response :: "Response option"

text \<open>
  What a promise can reject with: a fault of the platform storage, a failed request, or
  the \<^verbatim>\<open>ReferenceError\<close> thrown when a name that is not bound is evaluated (it
  carries the name).
\<close>

datatype Fault = StorageFault | RequestFailed AxiosError | ReferenceError string

subsection \<open>The world the code runs in\<close>

text \<open>The effects, in the order in which they take place.\<close>

datatype Effect =
    SecureSet string string
  | SecureDelete string
  | LocalSet string string
  | LocalRemove string
  | StateSet AuthState
  | Sent Request

text \<open>
  \<open>auth\<close> is the zustand store, \<open>secureStore\<close> and \<open>localStorage\<close> are the two
  persistent backends, \<open>platformOS\<close> is \<^verbatim>\<open>Platform.OS\<close>. \<open>io_script\<close> decides the
  platform storage calls to come: each call consumes the head, \<open>True\<close> meaning that the
  call succeeds, and an exhausted script means success. \<open>unhandled\<close> collects the rejections
  of promises that nothing awaits.
\<close>

record World =
  auth :: AuthState
  secureStore :: "string \<rightharpoonup> string"
  localStorage :: "string \<rightharpoonup> string"
  platformOS :: string
  io_script :: "bool list"
  trace :: "Effect list"
  unhandled :: "Fault list"

definition io_ok :: "World \<Rightarrow> bool" where
  "io_ok w = (case io_script w of [] \<Rightarrow> True | b # _ \<Rightarrow> b)"

definition io_next :: "World \<Rightarrow> World" where
  "io_next w = w\<lparr>io_script := (case io_script w of [] \<Rightarrow> [] | _ # bs \<Rightarrow> bs)\<rparr>"

definition emit :: "Effect \<Rightarrow> World \<Rightarrow> World" where
  "emit e w = w\<lparr>trace := trace w @ [e]\<rparr>"

text \<open>A world at process start: the store in its initial state, nothing done yet.\<close>

definition boot :: "string \<Rightarrow> (string \<rightharpoonup> string) \<Rightarrow> (string \<rightharpoonup> string) \<Rightarrow> bool list \<Rightarrow> World" where
  "boot os secure local script =
     \<lparr>auth = initialState, secureStore = secure, localStorage = local, platformOS = os,
      io_script = script, trace = [], unhandled = []\<rparr>"

section \<open>Persistent key-value storage\<close>

text \<open>
  The calls of \<^verbatim>\<open>expo-secure-store\<close> and of the browser's \<^verbatim>\<open>localStorage\<close>. A
  call that faults rejects and leaves the backend as it was; a read of a missing key
  returns \<^verbatim>\<open>null\<close>, not a fault.
\<close>

definition SecureStore_getItemAsync :: "string \<Rightarrow> World \<Rightarrow> (Fault + string option) \<times> World" where
  "SecureStore_getItemAsync key w =
     (if io_ok w then (Inr (secureStore w key), io_next w) else (Inl StorageFault, io_next w))"

definition SecureStore_setItemAsync :: "string \<Rightarrow> string \<Rightarrow> World \<Rightarrow> (Fault + unit) \<times> World" where
  "SecureStore_setItemAsync key v w =
     (if io_ok w
      then (Inr (), emit (SecureSet key v) ((io_next w)\<lparr>secureStore := (secureStore w)(key \<mapsto> v)\<rparr>))
      else (Inl StorageFault, io_next w))"

definition SecureStore_deleteItemAsync :: "string \<Rightarrow> World \<Rightarrow> (Fault + unit) \<times> World" where
  "SecureStore_deleteItemAsync key w =
     (if io_ok w
      then (Inr (), emit (SecureDelete key) ((io_next w)\<lparr>secureStore := (secureStore w)(key := None)\<rparr>))
      else (Inl StorageFault, io_next w))"

definition localStorage_getItem :: "string \<Rightarrow> World \<Rightarrow> (Fault + string option) \<times> World" where
  "localStorage_getItem key w =
     (if io_ok w then (Inr (localStorage w key), io_next w) else (Inl StorageFault, io_next w))"

definition localStorage_setItem :: "string \<Rightarrow> string \<Rightarrow> World \<Rightarrow> (Fault + unit) \<times> World" where
  "localStorage_setItem key v w =
     (if io_ok w
      then (Inr (), emit (LocalSet key v) ((io_next w)\<lparr>localStorage := (localStorage w)(key \<mapsto> v)\<rparr>))
      else (Inl StorageFault, io_next w))"

definition localStorage_removeItem :: "string \<Rightarrow> World \<Rightarrow> (Fault + unit) \<times> World" where
  "localStorage_removeItem key w =
     (if io_ok w
      then (Inr (), emit (LocalRemove key) ((io_next w)\<lparr>localStorage := (localStorage w)(key := None)\<rparr>))
      else (Inl StorageFault, io_next w))"

text \<open>\<^verbatim>\<open>storage\<close> of \<^verbatim>\<open>storage.ts\<close>: the backend is chosen by platform at each call.\<close>

definition storage_getItem :: "string \<Rightarrow> World \<Rightarrow> (Fault + string option) \<times> World" where
  "storage_getItem key w =
     (if platformOS w = ''web'' then localStorage_getItem key w else SecureStore_getItemAsync key w)"

definition storage_setItem :: "string \<Rightarrow> string \<Rightarrow> World \<Rightarrow> (Fault + unit) \<times> World" where
  "storage_setItem key v w =
     (if platformOS w = ''web'' then localStorage_setItem key v w else SecureStore_setItemAsync key v w)"

definition storage_deleteItem :: "string \<Rightarrow> World \<Rightarrow> (Fault + unit) \<times> World" where
  "storage_deleteItem key w =
     (if platformOS w = ''web'' then localStorage_removeItem key w else SecureStore_deleteItemAsync key w)"

section \<open>The session store\<close>

text \<open>zustand's \<^verbatim>\<open>set(partial)\<close>: one merge of the given fields into the state.\<close>

definition set_state :: "(AuthState \<Rightarrow> AuthState) \<Rightarrow> World \<Rightarrow> World" where
  "set_state f w = emit (StateSet (f (auth w))) (w\<lparr>auth := f (auth w)\<rparr>)"

text \<open>\<^verbatim>\<open>setUser: (user) => set({ user, isAuthenticated: !!user })\<close>\<close>

definition setUser :: "User option \<Rightarrow> World \<Rightarrow> World" where
  "setUser u w = set_state (\<lambda>s. s\<lparr>user := u, isAuthenticated := truthy_user u\<rparr>) w"

text \<open>
  \<^verbatim>\<open>setToken\<close> in its two halves: the storage call it awaits, and the state update that
  runs once that call has resolved.
\<close>

definition setToken_persist :: "string option \<Rightarrow> World \<Rightarrow> (Fault + unit) \<times> World" where
  "setToken_persist t w =
     (if truthy t then SecureStore_setItemAsync ''auth_token'' (the t) w
      else SecureStore_deleteItemAsync ''auth_token'' w)"

definition setToken_commit :: "string option \<Rightarrow> World \<Rightarrow> World" where
  "setToken_commit t w = set_state (\<lambda>s. s\<lparr>token := t, isAuthenticated := truthy t\<rparr>) w"

definition setToken :: "string option \<Rightarrow> World \<Rightarrow> (Fault + unit) \<times> World" where
  "setToken t w =
     (case setToken_persist t w of
        (Inl f, w') \<Rightarrow> (Inl f, w')
      | (Inr _, w') \<Rightarrow> (Inr (), setToken_commit t w'))"

text \<open>\<^verbatim>\<open>setLoading: (loading) => set({ isLoading: loading })\<close>\<close>

definition setLoading :: "bool \<Rightarrow> World \<Rightarrow> World" where
  "setLoading loading w = set_state (\<lambda>s. s\<lparr>isLoading := loading\<rparr>) w"

definition logout :: "World \<Rightarrow> (Fault + unit) \<times> World" where
  "logout w =
     (case SecureStore_deleteItemAsync ''auth_token'' w of
        (Inl f, w') \<Rightarrow> (Inl f, w')
      | (Inr _, w') \<Rightarrow>
          (Inr (), set_state (\<lambda>s. s\<lparr>user := None, token := None, isAuthenticated := False\<rparr>) w'))"

definition login :: "string \<Rightarrow> User \<Rightarrow> World \<Rightarrow> (Fault + unit) \<times> World" where
  "login t u w =
     (case SecureStore_setItemAsync ''auth_token'' t w of
        (Inl f, w') \<Rightarrow> (Inl f, w')
      | (Inr _, w') \<Rightarrow>
          (Inr (), set_state (\<lambda>s. s\<lparr>token := Some t, user := Some u, isAuthenticated := True,
                                     isLoading := False\<rparr>) w'))"

section \<open>The route guard\<close>

text \<open>\<^verbatim>\<open>segments[0]\<close>: \<^verbatim>\<open>undefined\<close> on the empty segment list.\<close>

definition segment0 :: "string list \<Rightarrow> string option" where
  "segment0 segments = (case segments of [] \<Rightarrow> None | s # _ \<Rightarrow> Some s)"

text \<open>
  The second effect of \<^verbatim>\<open>RootLayout\<close>, as the list of \<^verbatim>\<open>router.replace\<close> targets that
  one evaluation issues.
\<close>

definition route_guard :: "bool \<Rightarrow> bool \<Rightarrow> string list \<Rightarrow> string list" where
  "route_guard loading authenticated segments =
     (if loading then []
      else
        (let inAuthGroup = (segment0 segments = Some ''(auth)'');
             inTabsGroup = (segment0 segments = Some ''(tabs)'')
         in if \<not> authenticated \<and> \<not> inAuthGroup then [''/'']
            else if authenticated \<and> \<not> inTabsGroup \<and> segment0 segments \<noteq> Some ''post''
                    \<and> segment0 segments \<noteq> Some ''forum'' \<and> segment0 segments \<noteq> Some ''group''
                    \<and> segment0 segments \<noteq> Some ''resources'' \<and> segment0 segments \<noteq> Some ''premium''
                 then [''/(tabs)'']
            else []))"

section \<open>The API client\<close>

text \<open>
  What sending a request over the network yields once axios has classified the outcome:
  a response that fulfils the call, or the failure it rejects with. It is a parameter of
  the model.
\<close>

type_synonym Transport = "Request \<Rightarrow> AxiosError + Response"

text \<open>The headers the \<^verbatim>\<open>api\<close> instance is created with.\<close>

definition api_headers :: "string \<rightharpoonup> string" where
  "api_headers = [''Content-Type'' \<mapsto> ''application/json'']"

text \<open>
  The module of the API client imports \<^verbatim>\<open>axios\<close> and \<^verbatim>\<open>{ storage }\<close> and nothing
  else. Both of its interceptors name \<^verbatim>\<open>SecureStore\<close>, which that module does not bind:
  evaluating the name throws a \<^verbatim>\<open>ReferenceError\<close> before the call it is the receiver of.

  The request interceptor: its first statement is
  \<^verbatim>\<open>const token = await SecureStore.getItemAsync('auth_token')\<close>, so it rejects at once;
  the test of the token, the \<^verbatim>\<open>Authorization\<close> header and \<^verbatim>\<open>return config\<close> are
  never reached, and no storage call is made.
\<close>

definition request_fulfilled :: "Request \<Rightarrow> World \<Rightarrow> (Fault + Request) \<times> World" where
  "request_fulfilled config w = (Inl (ReferenceError ''SecureStore''), w)"

text \<open>
  \<^verbatim>\<open>error.response?.status\<close>; neither a storage fault nor a \<^verbatim>\<open>ReferenceError\<close>
  carries a response.
\<close>

definition status_of :: "Fault \<Rightarrow> nat option" where
  "status_of error =
     (case error of
        StorageFault \<Rightarrow> None
      | RequestFailed e \<Rightarrow> (case response e of None \<Rightarrow> None | Some r \<Rightarrow> Some (status r))
      | ReferenceError _ \<Rightarrow> None)"

text \<open>
  The response interceptor's error handler. On status 401 it evaluates
  \<^verbatim>\<open>SecureStore.deleteItemAsync('auth_token')\<close>: the name is not bound, the handler
  throws, and its promise rejects with the \<^verbatim>\<open>ReferenceError\<close>; the delete is not made
  and \<^verbatim>\<open>Promise.reject(error)\<close> is not reached. On any other failure it rejects with the
  error it was given.
\<close>

definition response_rejected :: "Fault \<Rightarrow> World \<Rightarrow> (Fault + Response) \<times> World" where
  "response_rejected error w =
     (if status_of error = Some 401
      then (Inl (ReferenceError ''SecureStore''), w)
      else (Inl error, w))"

text \<open>
  A call through the \<^verbatim>\<open>api\<close> instance: request interceptor, network, response
  interceptor. The success handler of the response interceptor is the identity; a
  rejection of the request interceptor skips the network and reaches the response
  interceptor's error handler, as axios chains them.
\<close>

definition api_request :: "Transport \<Rightarrow> Request \<Rightarrow> World \<Rightarrow> (Fault + Response) \<times> World" where
  "api_request net config w =
     (case request_fulfilled config w of
        (Inl f, w1) \<Rightarrow> response_rejected f w1
      | (Inr config', w1) \<Rightarrow>
          (case net config' of
             Inr resp \<Rightarrow> (Inr resp, emit (Sent config') w1)
           | Inl err \<Rightarrow> response_rejected (RequestFailed err) (emit (Sent config') w1)))"

text \<open>The requests that went out over the network, in order.\<close>

fun sent_of :: "Effect \<Rightarrow> Request list" where
  "sent_of (Sent r) = [r]"
| "sent_of _ = []"

definition sent_requests :: "World \<Rightarrow> Request list" where
  "sent_requests w = concat (map sent_of (trace w))"

definition api_get :: "Transport \<Rightarrow> string \<Rightarrow> World \<Rightarrow> (Fault + Response) \<times> World" where
  "api_get net path w =
     api_request net \<lparr>http_method = ''get'', url = path, headers = api_headers, body = None\<rparr> w"

definition api_post :: "Transport \<Rightarrow> string \<Rightarrow> string option \<Rightarrow> World \<Rightarrow> (Fault + Response) \<times> World" where
  "api_post net path payload w =
     api_request net \<lparr>http_method = ''post'', url = path, headers = api_headers, body = payload\<rparr> w"

text \<open>\<^verbatim>\<open>authAPI.login\<close> and \<^verbatim>\<open>authAPI.getMe\<close>; the credentials are the serialised body.\<close>

definition authAPI_login :: "Transport \<Rightarrow> string \<Rightarrow> World \<Rightarrow> (Fault + Response) \<times> World" where
  "authAPI_login net credentials w = api_post net ''/auth/login'' (Some credentials) w"

definition authAPI_getMe :: "Transport \<Rightarrow> World \<Rightarrow> (Fault + Response) \<times> World" where
  "authAPI_getMe net w = api_get net ''/auth/me'' w"

section \<open>Startup resolution\<close>

text \<open>
  \<^verbatim>\<open>loadAuth\<close> calls \<^verbatim>\<open>setToken(token)\<close> without awaiting it. The storage call of
  \<^verbatim>\<open>setToken\<close> is issued at once, and storage calls take effect in the order in which
  they are issued; the state update of \<^verbatim>\<open>setToken\<close> runs when its storage call has
  resolved, which is at one of the later suspension points of \<^verbatim>\<open>loadAuth\<close> (while it
  awaits the profile request, or while it awaits the delete in the \<^verbatim>\<open>catch\<close> block) or
  after it has returned. The schedule says which; a run that never reaches the delete
  settles a \<open>DuringDelete\<close> call after the return.
\<close>

datatype Schedule = DuringGetMe | DuringDelete | AfterReturn

text \<open>
  The second half of the detached \<^verbatim>\<open>setToken\<close> call: the state update, or, when the
  storage call faulted, a rejection that nothing handles.
\<close>

definition setToken_settle :: "string option \<Rightarrow> (Fault + unit) \<Rightarrow> World \<Rightarrow> World" where
  "setToken_settle t r w =
     (case r of Inl f \<Rightarrow> w\<lparr>unhandled := unhandled w @ [f]\<rparr> | Inr _ \<Rightarrow> setToken_commit t w)"

text \<open>A detached \<^verbatim>\<open>setToken\<close> call that has not settled yet: its argument and the outcome
  of its storage call.\<close>

type_synonym Pending = "(string option \<times> (Fault + unit)) option"

definition settle_pending :: "Pending \<Rightarrow> World \<Rightarrow> World" where
  "settle_pending p w = (case p of None \<Rightarrow> w | Some (t, r) \<Rightarrow> setToken_settle t r w)"

text \<open>The \<^verbatim>\<open>try\<close> block.\<close>

definition loadAuth_try :: "Schedule \<Rightarrow> Transport \<Rightarrow> World \<Rightarrow> (Fault + unit) \<times> World \<times> Pending" where
  "loadAuth_try sched net w =
     (case storage_getItem ''auth_token'' w of
        (Inl f, w1) \<Rightarrow> (Inl f, w1, None)
      | (Inr tok, w1) \<Rightarrow>
          if truthy tok then
            (case setToken_persist tok w1 of
               (r, w2) \<Rightarrow>
                 (case (if sched = DuringGetMe then (setToken_settle tok r w2, None)
                        else (w2, Some (tok, r))) of
                    (w3, p) \<Rightarrow>
                      (case authAPI_getMe net w3 of
                         (Inl f, w4) \<Rightarrow> (Inl f, w4, p)
                       | (Inr resp, w4) \<Rightarrow> (Inr (), setUser (data resp) w4, p))))
          else (Inr (), w1, None))"

text \<open>The \<^verbatim>\<open>catch\<close> block: the delete has a \<^verbatim>\<open>try\<close>/\<^verbatim>\<open>catch\<close> of its own, which only logs.\<close>

definition loadAuth_catch :: "Schedule \<Rightarrow> World \<Rightarrow> Pending \<Rightarrow> (Fault + unit) \<times> World \<times> Pending" where
  "loadAuth_catch sched w p =
     (case storage_deleteItem ''auth_token'' w of
        (Inl e, w1) \<Rightarrow>
          (if sched = DuringDelete then (Inr (), settle_pending p w1, None) else (Inr (), w1, p))
      | (Inr _, w1) \<Rightarrow>
          (if sched = DuringDelete then (Inr (), settle_pending p w1, None) else (Inr (), w1, p)))"

text \<open>
  \<^verbatim>\<open>loadAuth\<close> up to its return: the outcome of its promise, the world at that moment,
  and the detached \<^verbatim>\<open>setToken\<close> call if it is still pending.
\<close>

definition loadAuth_run :: "Schedule \<Rightarrow> Transport \<Rightarrow> World \<Rightarrow> (Fault + unit) \<times> World \<times> Pending" where
  "loadAuth_run sched net w =
     (case loadAuth_try sched net w of
        (Inl f, w1, p) \<Rightarrow>
          (case loadAuth_catch sched w1 p of (r, w2, p') \<Rightarrow> (r, setLoading False w2, p'))
      | (Inr _, w1, p) \<Rightarrow> (Inr (), setLoading False w1, p))"

text \<open>Startup resolution once everything it started has settled.\<close>

definition loadAuth :: "Schedule \<Rightarrow> Transport \<Rightarrow> World \<Rightarrow> (Fault + unit) \<times> World" where
  "loadAuth sched net w =
     (case loadAuth_run sched net w of (r, w1, p) \<Rightarrow> (r, settle_pending p w1))"

text \<open>
  What \<^verbatim>\<open>storage.getItem('auth_token')\<close> finds, and the runs in which the write of the
  detached \<^verbatim>\<open>setToken\<close> faults: the read, the first storage call, succeeds and finds a
  truthy token, and the second storage call, that write, faults.
\<close>

definition persisted_token :: "World \<Rightarrow> string option" where
  "persisted_token w =
     (if platformOS w = ''web'' then localStorage w ''auth_token'' else secureStore w ''auth_token'')"

definition setToken_write_faults :: "World \<Rightarrow> bool" where
  "setToken_write_faults w = (io_ok w \<and> truthy (persisted_token w) \<and> \<not> io_ok (io_next w))"

section \<open>Sequences of store calls\<close>

datatype Call = Login string User | Logout | SetToken "string option"

text \<open>One call, awaited until it settles; a rejection leaves the caller with the world.\<close>

definition apply_call :: "Call \<Rightarrow> World \<Rightarrow> World" where
  "apply_call c w =
     (case c of
        Login t u \<Rightarrow> snd (login t u w)
      | Logout \<Rightarrow> snd (logout w)
      | SetToken t \<Rightarrow> snd (setToken t w))"

fun run_calls :: "Call list \<Rightarrow> World \<Rightarrow> World" where
  "run_calls [] w = w"
| "run_calls (c # cs) w = run_calls cs (apply_call c w)"

text \<open>The token is present when it is a non-empty string, the test the code itself makes.\<close>

definition token_present :: "AuthState \<Rightarrow> bool" where
  "token_present s = truthy (token s)"

text \<open>The tokens handed to \<^verbatim>\<open>login\<close> are non-empty.\<close>

definition login_tokens_nonempty :: "Call list \<Rightarrow> bool" where
  "login_tokens_nonempty cs = list_all (\<lambda>c. case c of Login t u \<Rightarrow> t \<noteq> [] | _ \<Rightarrow> True) cs"

text \<open>Concrete data for the examples.\<close>

definition sarah :: User where
  "sarah = \<lparr>user_id = ''u1'', email = ''sarah@example.com'', name = ''Sarah'', picture = None,
            bio = None, pregnancy_stage = None, due_date = None, children_count = 0,
            interests = [], is_premium = False, created_at = ''2026-01-19''\<rparr>"

definition unauthorized :: AxiosError where
  "unauthorized = \<lparr>message = ''Request failed with status code 401'',
                   response = Some \<lparr>status = 401, data = None\<rparr>\<rparr>"

section \<open>Properties\<close>

lemmas storage_defs =
  SecureStore_getItemAsync_def SecureStore_setItemAsync_def SecureStore_deleteItemAsync_def
  localStorage_getItem_def localStorage_setItem_def localStorage_removeItem_def
  storage_getItem_def storage_setItem_def storage_deleteItem_def
  io_next_def emit_def set_state_def

lemma emit_fields [simp]:
  "auth (emit e w) = auth w"
  "secureStore (emit e w) = secureStore w"
  "localStorage (emit e w) = localStorage w"
  "platformOS (emit e w) = platformOS w"
  "io_script (emit e w) = io_script w"
  "trace (emit e w) = trace w @ [e]"
  "unhandled (emit e w) = unhandled w"
  by (simp_all add: emit_def)

lemma io_next_fields [simp]:
  "auth (io_next w) = auth w"
  "secureStore (io_next w) = secureStore w"
  "localStorage (io_next w) = localStorage w"
  "platformOS (io_next w) = platformOS w"
  "trace (io_next w) = trace w"
  "unhandled (io_next w) = unhandled w"
  by (simp_all add: io_next_def)

lemma io_ok_emit [simp]: "io_ok (emit e w) = io_ok w"
  by (simp add: io_ok_def)

lemma set_state_fields [simp]:
  "auth (set_state f w) = f (auth w)"
  "secureStore (set_state f w) = secureStore w"
  "localStorage (set_state f w) = localStorage w"
  "platformOS (set_state f w) = platformOS w"
  "io_script (set_state f w) = io_script w"
  "trace (set_state f w) = trace w @ [StateSet (f (auth w))]"
  "unhandled (set_state f w) = unhandled w"
  by (simp_all add: set_state_def)

text \<open>
  On every platform other than the web, \<^verbatim>\<open>storage\<close> is the secure store, so the
  variant of the session store that persists through \<^verbatim>\<open>storage\<close> behaves there as the
  one modelled.
\<close>

lemma storage_native:
  assumes "platformOS w \<noteq> ''web''"
  shows "storage_getItem key w = SecureStore_getItemAsync key w"
    and "storage_setItem key v w = SecureStore_setItemAsync key v w"
    and "storage_deleteItem key w = SecureStore_deleteItemAsync key w"
  using assms by (simp_all add: storage_getItem_def storage_setItem_def storage_deleteItem_def)

subsection \<open>The route guard\<close>

text \<open>
  C4: as a function of \<open>isLoading\<close>, \<open>isAuthenticated\<close> and the first segment, the route
  guard issues no navigation while loading. Once not loading, it issues exactly one
  \<^verbatim>\<open>replace\<close> to the landing route when unauthenticated outside the \<^verbatim>\<open>(auth)\<close> group,
  exactly one \<^verbatim>\<open>replace\<close> to the tabbed group when authenticated on a segment that is
  neither \<^verbatim>\<open>(tabs)\<close> nor one of post, forum, group, resources, premium, and none
  otherwise; authenticated on \<^verbatim>\<open>premium\<close> it issues none.
\<close>

theorem route_guard_decisions:
  "route_guard True au segs = []
   \<and> (\<not> au \<and> segment0 segs \<noteq> Some ''(auth)'' \<longrightarrow> route_guard False au segs = [''/''])
   \<and> (\<not> au \<and> segment0 segs = Some ''(auth)'' \<longrightarrow> route_guard False au segs = [])
   \<and> (au \<and> segment0 segs \<notin> {Some ''(tabs)'', Some ''post'', Some ''forum'', Some ''group'',
                               Some ''resources'', Some ''premium''}
        \<longrightarrow> route_guard False au segs = [''/(tabs)''])
   \<and> (au \<and> segment0 segs \<in> {Some ''(tabs)'', Some ''post'', Some ''forum'', Some ''group'',
                             Some ''resources'', Some ''premium''}
        \<longrightarrow> route_guard False au segs = [])
   \<and> route_guard False True [''premium''] = []"
  by (auto simp: route_guard_def segment0_def Let_def)

theorem route_guard_decisions_witness:
  "segment0 [''(tabs)''] \<noteq> Some ''(auth)''
   \<and> route_guard False False [''(tabs)''] = [''/'']
   \<and> segment0 [''(auth)'', ''login''] = Some ''(auth)''
   \<and> route_guard False False [''(auth)'', ''login''] = []
   \<and> segment0 [''(auth)''] \<notin> {Some ''(tabs)'', Some ''post'', Some ''forum'', Some ''group'',
                                 Some ''resources'', Some ''premium''}
   \<and> route_guard False True [''(auth)''] = [''/(tabs)'']
   \<and> segment0 [''post'', ''42''] \<in> {Some ''(tabs)'', Some ''post'', Some ''forum'', Some ''group'',
                                    Some ''resources'', Some ''premium''}
   \<and> route_guard False True [''post'', ''42''] = []
   \<and> route_guard True True [''(auth)''] = []"
  using route_guard_decisions [of False "[''(tabs)'']"]
        route_guard_decisions [of False "[''(auth)'', ''login'']"]
        route_guard_decisions [of True "[''(auth)'']"]
        route_guard_decisions [of True "[''post'', ''42'']"]
  by (simp add: segment0_def)

subsection \<open>Login and logout\<close>

text \<open>
  C5: for every token \<open>t\<close> and user \<open>u\<close>, \<^verbatim>\<open>login(t, u)\<close> first writes \<open>t\<close> under the
  key \<^verbatim>\<open>auth_token\<close> and then makes one state update that sets the token to \<open>t\<close>, the
  user to \<open>u\<close>, \<open>isAuthenticated\<close> to true and \<open>isLoading\<close> to false; a read of the
  persisted store for that key then returns \<open>t\<close>. (The storage calls are taken to
  succeed; a faulting write rejects the call, see \<open>login_fault\<close>.)
\<close>

theorem login_persists_then_sets:
  assumes "io_ok w"
  shows "login t u w =
           (Inr (),
            (io_next w)\<lparr>secureStore := (secureStore w)(''auth_token'' \<mapsto> t),
                         auth := \<lparr>user = Some u, token = Some t, isLoading = False,
                                  isAuthenticated = True\<rparr>,
                         trace := trace w @ [SecureSet ''auth_token'' t,
                                    StateSet \<lparr>user = Some u, token = Some t, isLoading = False,
                                              isAuthenticated = True\<rparr>]\<rparr>)
         \<and> (io_ok (snd (login t u w)) \<longrightarrow>
              fst (SecureStore_getItemAsync ''auth_token'' (snd (login t u w))) = Inr (Some t))"
  using assms by (simp add: login_def storage_defs)

theorem login_persists_then_sets_witness:
  "io_ok (boot ''ios'' Map.empty Map.empty [])
   \<and> fst (login ''abc'' sarah (boot ''ios'' Map.empty Map.empty [])) = Inr ()
   \<and> io_ok (snd (login ''abc'' sarah (boot ''ios'' Map.empty Map.empty [])))
   \<and> fst (SecureStore_getItemAsync ''auth_token''
            (snd (login ''abc'' sarah (boot ''ios'' Map.empty Map.empty [])))) = Inr (Some ''abc'')"
  using login_persists_then_sets [of "boot ''ios'' Map.empty Map.empty []" "''abc''" sarah]
  by (auto simp add: io_ok_def boot_def io_next_def)

lemma login_fault:
  "\<not> io_ok w \<Longrightarrow> login t u w = (Inl StorageFault, io_next w)"
  by (simp add: login_def storage_defs)

text \<open>
  C6: for every session state, \<^verbatim>\<open>logout()\<close> first deletes the persisted token and then
  makes one state update that clears token and user and sets \<open>isAuthenticated\<close> to false,
  leaving \<open>isLoading\<close> as it was; a read of the persisted store for the token key then
  returns nothing. (The storage calls are taken to succeed; a faulting delete rejects the
  call, see \<open>logout_fault\<close>.)
\<close>

theorem logout_deletes_then_clears:
  assumes "io_ok w"
  shows "logout w =
           (Inr (),
            (io_next w)\<lparr>secureStore := (secureStore w)(''auth_token'' := None),
                         auth := \<lparr>user = None, token = None, isLoading = isLoading (auth w),
                                  isAuthenticated = False\<rparr>,
                         trace := trace w @ [SecureDelete ''auth_token'',
                                    StateSet \<lparr>user = None, token = None,
                                              isLoading = isLoading (auth w),
                                              isAuthenticated = False\<rparr>]\<rparr>)
         \<and> (io_ok (snd (logout w)) \<longrightarrow>
              fst (SecureStore_getItemAsync ''auth_token'' (snd (logout w))) = Inr None)"
  using assms by (simp add: logout_def storage_defs)

theorem logout_deletes_then_clears_witness:
  "io_ok (boot ''ios'' [''auth_token'' \<mapsto> ''abc''] Map.empty [])
   \<and> fst (logout (boot ''ios'' [''auth_token'' \<mapsto> ''abc''] Map.empty [])) = Inr ()
   \<and> isLoading (auth (snd (logout (boot ''ios'' [''auth_token'' \<mapsto> ''abc''] Map.empty []))))
   \<and> io_ok (snd (logout (boot ''ios'' [''auth_token'' \<mapsto> ''abc''] Map.empty [])))
   \<and> fst (SecureStore_getItemAsync ''auth_token''
            (snd (logout (boot ''ios'' [''auth_token'' \<mapsto> ''abc''] Map.empty [])))) = Inr None"
  using logout_deletes_then_clears [of "boot ''ios'' [''auth_token'' \<mapsto> ''abc''] Map.empty []"]
  by (auto simp add: io_ok_def boot_def io_next_def initialState_def)

lemma logout_fault:
  "\<not> io_ok w \<Longrightarrow> logout w = (Inl StorageFault, io_next w)"
  by (simp add: logout_def storage_defs)

subsection \<open>The API client\<close>

lemma request_fulfilled_auth [simp]: "auth (snd (request_fulfilled config w)) = auth w"
  by (simp add: request_fulfilled_def)

lemma response_rejected_auth [simp]: "auth (snd (response_rejected error w)) = auth w"
  by (simp add: response_rejected_def)

text \<open>Every call through the client rejects in the request interceptor and changes nothing.\<close>

lemma api_request_rejects:
  "api_request net config w = (Inl (ReferenceError ''SecureStore''), w)"
  by (simp add: api_request_def request_fulfilled_def response_rejected_def status_of_def)

lemma api_request_auth [simp]: "auth (snd (api_request net config w)) = auth w"
  by (simp add: api_request_rejects)

lemma response_rejected_401:
  "status_of error = Some 401 \<Longrightarrow>
     response_rejected error w = (Inl (ReferenceError ''SecureStore''), w)"
  by (simp add: response_rejected_def)

lemma response_rejected_other:
  "status_of error \<noteq> Some 401 \<Longrightarrow> response_rejected error w = (Inl error, w)"
  by (simp add: response_rejected_def)

text \<open>
  C7 states that for every failure carrying status 401 the error handler of the response
  interceptor deletes the persisted token and then rejects with the failure it was given,
  never touching the in-memory session state. The handler does not do the first two: handed
  a 401 while \<^verbatim>\<open>"abc"\<close> is persisted, it rejects with a \<^verbatim>\<open>ReferenceError\<close> for the
  unbound name \<^verbatim>\<open>SecureStore\<close>, not with the failure it was given, and the persisted
  token is still there. (The session state is indeed left alone, see
  \<open>response_rejected_auth\<close>.)
\<close>

theorem response_interceptor_on_401_throws:
  "status_of (RequestFailed unauthorized) = Some 401
   \<and> response_rejected (RequestFailed unauthorized)
         (boot ''ios'' [''auth_token'' \<mapsto> ''abc''] Map.empty [])
       = (Inl (ReferenceError ''SecureStore''),
          boot ''ios'' [''auth_token'' \<mapsto> ''abc''] Map.empty [])
   \<and> fst (response_rejected (RequestFailed unauthorized)
         (boot ''ios'' [''auth_token'' \<mapsto> ''abc''] Map.empty []))
       \<noteq> Inl (RequestFailed unauthorized)
   \<and> secureStore (snd (response_rejected (RequestFailed unauthorized)
         (boot ''ios'' [''auth_token'' \<mapsto> ''abc''] Map.empty []))) ''auth_token'' = Some ''abc''"
  by (simp add: response_rejected_def status_of_def unauthorized_def boot_def)

text \<open>
  C8 states that before every request the token is read from the persisted store and
  attached as a bearer header when present, and that a request with no stored token is
  sent without the header. The request interceptor does neither: it rejects with a
  \<^verbatim>\<open>ReferenceError\<close> for the unbound name \<^verbatim>\<open>SecureStore\<close> before any read. With
  \<^verbatim>\<open>"abc"\<close> persisted, and also with nothing persisted, a \<^verbatim>\<open>GET /auth/me\<close> through
  the client is rejected and no request is sent.
\<close>

theorem request_interceptor_rejects_every_request:
  "request_fulfilled \<lparr>http_method = ''get'', url = ''/auth/me'', headers = api_headers, body = None\<rparr>
       (boot ''ios'' [''auth_token'' \<mapsto> ''abc''] Map.empty [])
     = (Inl (ReferenceError ''SecureStore''), boot ''ios'' [''auth_token'' \<mapsto> ''abc''] Map.empty [])
   \<and> fst (api_get (\<lambda>_. Inr \<lparr>status = 200, data = Some sarah\<rparr>) ''/auth/me''
            (boot ''ios'' [''auth_token'' \<mapsto> ''abc''] Map.empty []))
       = Inl (ReferenceError ''SecureStore'')
   \<and> sent_requests (snd (api_get (\<lambda>_. Inr \<lparr>status = 200, data = Some sarah\<rparr>) ''/auth/me''
            (boot ''ios'' [''auth_token'' \<mapsto> ''abc''] Map.empty []))) = []
   \<and> fst (api_get (\<lambda>_. Inr \<lparr>status = 200, data = Some sarah\<rparr>) ''/auth/me''
            (boot ''ios'' Map.empty Map.empty []))
       = Inl (ReferenceError ''SecureStore'')
   \<and> sent_requests (snd (api_get (\<lambda>_. Inr \<lparr>status = 200, data = Some sarah\<rparr>) ''/auth/me''
            (boot ''ios'' Map.empty Map.empty []))) = []"
  by (simp add: api_get_def api_request_def request_fulfilled_def response_rejected_def
        status_of_def sent_requests_def boot_def)

text \<open>
  C10 states that every response with status 401 deletes the persisted token, whether or
  not the request carried a bearer header, so that a failed password login deletes a token
  left in the persisted store. It does not: with \<^verbatim>\<open>"abc"\<close> left in the store and a
  login endpoint that would answer 401, \<^verbatim>\<open>authAPI.login\<close> is rejected in the request
  interceptor, nothing is sent, and the token is still persisted afterwards; nor does the
  response handler delete it when handed the 401 directly.
\<close>

theorem failed_login_keeps_persisted_token:
  "fst (authAPI_login (\<lambda>_. Inl unauthorized) ''{}''
          (boot ''ios'' [''auth_token'' \<mapsto> ''abc''] Map.empty []))
     = Inl (ReferenceError ''SecureStore'')
   \<and> sent_requests (snd (authAPI_login (\<lambda>_. Inl unauthorized) ''{}''
          (boot ''ios'' [''auth_token'' \<mapsto> ''abc''] Map.empty []))) = []
   \<and> secureStore (snd (authAPI_login (\<lambda>_. Inl unauthorized) ''{}''
          (boot ''ios'' [''auth_token'' \<mapsto> ''abc''] Map.empty []))) ''auth_token'' = Some ''abc''
   \<and> trace (snd (response_rejected (RequestFailed unauthorized)
          (emit (Sent \<lparr>http_method = ''post'', url = ''/auth/login'', headers = api_headers,
                        body = Some ''{}''\<rparr>)
             (boot ''ios'' [''auth_token'' \<mapsto> ''abc''] Map.empty []))))
     = [Sent \<lparr>http_method = ''post'', url = ''/auth/login'', headers = api_headers,
               body = Some ''{}''\<rparr>]
   \<and> secureStore (snd (response_rejected (RequestFailed unauthorized)
          (emit (Sent \<lparr>http_method = ''post'', url = ''/auth/login'', headers = api_headers,
                        body = Some ''{}''\<rparr>)
             (boot ''ios'' [''auth_token'' \<mapsto> ''abc''] Map.empty [])))) ''auth_token''
     = Some ''abc''"
  by (simp add: authAPI_login_def api_post_def api_request_def request_fulfilled_def
        response_rejected_def status_of_def unauthorized_def sent_requests_def boot_def)

subsection \<open>The store operations and \<open>isAuthenticated\<close>\<close>

lemma setToken_fst: "fst (setToken t w) = (if io_ok w then Inr () else Inl StorageFault)"
  by (simp add: setToken_def setToken_persist_def SecureStore_setItemAsync_def
        SecureStore_deleteItemAsync_def)

lemma setToken_auth:
  "auth (snd (setToken t w)) =
     (if io_ok w then (auth w)\<lparr>token := t, isAuthenticated := truthy t\<rparr> else auth w)"
  by (simp add: setToken_def setToken_persist_def setToken_commit_def SecureStore_setItemAsync_def
        SecureStore_deleteItemAsync_def)

lemma logout_fst: "fst (logout w) = (if io_ok w then Inr () else Inl StorageFault)"
  by (simp add: logout_def SecureStore_deleteItemAsync_def)

lemma logout_auth:
  "auth (snd (logout w)) =
     (if io_ok w then (auth w)\<lparr>user := None, token := None, isAuthenticated := False\<rparr>
      else auth w)"
  by (simp add: logout_def SecureStore_deleteItemAsync_def)

lemma login_fst: "fst (login t u w) = (if io_ok w then Inr () else Inl StorageFault)"
  by (simp add: login_def SecureStore_setItemAsync_def)

lemma login_auth:
  "auth (snd (login t u w)) =
     (if io_ok w
      then (auth w)\<lparr>token := Some t, user := Some u, isAuthenticated := True, isLoading := False\<rparr>
      else auth w)"
  by (simp add: login_def SecureStore_setItemAsync_def)

text \<open>
  C1, as stated, fails: \<^verbatim>\<open>setUser\<close> also writes \<open>isAuthenticated\<close>. From the initial
  state, \<^verbatim>\<open>setUser(sarah)\<close> gives \<open>isAuthenticated = true\<close> with no token in memory; and
  \<^verbatim>\<open>login\<close> with the empty string gives \<open>isAuthenticated = true\<close> with a token that is
  not present.
\<close>

theorem setUser_sets_isAuthenticated:
  "\<not> isAuthenticated (auth (boot ''ios'' Map.empty Map.empty []))
   \<and> isAuthenticated (auth (setUser (Some sarah) (boot ''ios'' Map.empty Map.empty [])))
   \<and> token (auth (setUser (Some sarah) (boot ''ios'' Map.empty Map.empty []))) = None
   \<and> \<not> token_present (auth (setUser (Some sarah) (boot ''ios'' Map.empty Map.empty [])))
   \<and> fst (login [] sarah (boot ''ios'' Map.empty Map.empty [])) = Inr ()
   \<and> isAuthenticated (auth (snd (login [] sarah (boot ''ios'' Map.empty Map.empty []))))
   \<and> \<not> token_present (auth (snd (login [] sarah (boot ''ios'' Map.empty Map.empty []))))"
  by (simp add: setUser_def login_def SecureStore_setItemAsync_def io_ok_def boot_def
        initialState_def token_present_def truthy_def truthy_user_def)

text \<open>
  C1, amended: \<^verbatim>\<open>setUser(u)\<close> sets \<open>user\<close> to \<open>u\<close> and \<open>isAuthenticated\<close> to
  "\<open>u\<close> is present", leaving token and \<open>isLoading\<close> as they were; \<^verbatim>\<open>setLoading\<close> changes
  \<open>isLoading\<close> only; once \<^verbatim>\<open>setToken(t)\<close> or \<^verbatim>\<open>logout()\<close> has succeeded, or
  \<^verbatim>\<open>login(t, u)\<close> with a non-empty \<open>t\<close> has succeeded, \<open>isAuthenticated\<close> is true if and
  only if the in-memory token is present (a non-empty string); and one of these three whose
  storage call faults leaves the session state as it was.
\<close>

theorem store_operations_and_isAuthenticated:
  "auth (setUser u w) = (auth w)\<lparr>user := u, isAuthenticated := (u \<noteq> None)\<rparr>
   \<and> auth (setLoading b w) = (auth w)\<lparr>isLoading := b\<rparr>
   \<and> (fst (setToken t w) = Inr () \<longrightarrow>
        isAuthenticated (auth (snd (setToken t w))) = token_present (auth (snd (setToken t w))))
   \<and> (fst (logout w) = Inr () \<longrightarrow>
        isAuthenticated (auth (snd (logout w))) = token_present (auth (snd (logout w))))
   \<and> (tk \<noteq> [] \<and> fst (login tk us w) = Inr () \<longrightarrow>
        isAuthenticated (auth (snd (login tk us w))) = token_present (auth (snd (login tk us w))))
   \<and> (fst (setToken t w) \<noteq> Inr () \<longrightarrow> auth (snd (setToken t w)) = auth w)
   \<and> (fst (logout w) \<noteq> Inr () \<longrightarrow> auth (snd (logout w)) = auth w)
   \<and> (fst (login tk us w) \<noteq> Inr () \<longrightarrow> auth (snd (login tk us w)) = auth w)"
proof (intro conjI impI)
  show "auth (setUser u w) = (auth w)\<lparr>user := u, isAuthenticated := (u \<noteq> None)\<rparr>"
    by (cases u) (simp_all add: setUser_def truthy_user_def)
  show "auth (setLoading b w) = (auth w)\<lparr>isLoading := b\<rparr>"
    by (simp add: setLoading_def)
  show "isAuthenticated (auth (snd (setToken t w))) = token_present (auth (snd (setToken t w)))"
    if "fst (setToken t w) = Inr ()"
    using that by (simp add: setToken_fst setToken_auth token_present_def split: if_splits)
  show "isAuthenticated (auth (snd (logout w))) = token_present (auth (snd (logout w)))"
    if "fst (logout w) = Inr ()"
    using that by (simp add: logout_fst logout_auth token_present_def truthy_def split: if_splits)
  show "isAuthenticated (auth (snd (login tk us w))) = token_present (auth (snd (login tk us w)))"
    if "tk \<noteq> [] \<and> fst (login tk us w) = Inr ()"
    using that by (simp add: login_fst login_auth token_present_def truthy_def split: if_splits)
  show "auth (snd (setToken t w)) = auth w" if "fst (setToken t w) \<noteq> Inr ()"
    using that by (simp add: setToken_fst setToken_auth split: if_splits)
  show "auth (snd (logout w)) = auth w" if "fst (logout w) \<noteq> Inr ()"
    using that by (simp add: logout_fst logout_auth split: if_splits)
  show "auth (snd (login tk us w)) = auth w" if "fst (login tk us w) \<noteq> Inr ()"
    using that by (simp add: login_fst login_auth split: if_splits)
qed

theorem store_operations_and_isAuthenticated_witness:
  "fst (setToken (Some ''abc'') (boot ''ios'' Map.empty Map.empty [])) = Inr ()
   \<and> isAuthenticated (auth (snd (setToken (Some ''abc'') (boot ''ios'' Map.empty Map.empty []))))
       = token_present (auth (snd (setToken (Some ''abc'') (boot ''ios'' Map.empty Map.empty []))))
   \<and> fst (logout (boot ''ios'' Map.empty Map.empty [])) = Inr ()
   \<and> isAuthenticated (auth (snd (logout (boot ''ios'' Map.empty Map.empty []))))
       = token_present (auth (snd (logout (boot ''ios'' Map.empty Map.empty []))))
   \<and> ''abc'' \<noteq> [] \<and> fst (login ''abc'' sarah (boot ''ios'' Map.empty Map.empty [])) = Inr ()
   \<and> isAuthenticated (auth (snd (login ''abc'' sarah (boot ''ios'' Map.empty Map.empty []))))
       = token_present (auth (snd (login ''abc'' sarah (boot ''ios'' Map.empty Map.empty []))))
   \<and> fst (login ''abc'' sarah (boot ''ios'' Map.empty Map.empty [False])) \<noteq> Inr ()
   \<and> auth (snd (login ''abc'' sarah (boot ''ios'' Map.empty Map.empty [False])))
       = auth (boot ''ios'' Map.empty Map.empty [False])"
proof -
  have ok: "io_ok (boot ''ios'' Map.empty Map.empty [])"
    and bad: "\<not> io_ok (boot ''ios'' Map.empty Map.empty [False])"
    by (simp_all add: io_ok_def boot_def)
  show ?thesis
    using store_operations_and_isAuthenticated
            [of "Some sarah" "boot ''ios'' Map.empty Map.empty []" True "Some ''abc''" "''abc''" sarah]
          store_operations_and_isAuthenticated
            [of "Some sarah" "boot ''ios'' Map.empty Map.empty [False]" True "Some ''abc''" "''abc''" sarah]
    by (simp add: setToken_fst logout_fst login_fst ok bad)
qed

subsection \<open>Sequences of login, logout and setToken\<close>

lemma apply_call_keeps_invariant:
  assumes "isAuthenticated (auth w) = token_present (auth w)"
    and "login_tokens_nonempty [c]"
  shows "isAuthenticated (auth (apply_call c w)) = token_present (auth (apply_call c w))"
proof (cases c)
  case (Login t u)
  with assms show ?thesis
    by (simp add: apply_call_def login_auth login_tokens_nonempty_def token_present_def truthy_def)
next
  case Logout
  with assms show ?thesis
    by (simp add: apply_call_def logout_auth token_present_def truthy_def)
next
  case (SetToken t)
  with assms show ?thesis
    by (simp add: apply_call_def setToken_auth token_present_def)
qed

lemma run_calls_keeps_invariant:
  "isAuthenticated (auth w) = token_present (auth w) \<Longrightarrow> login_tokens_nonempty cs \<Longrightarrow>
     isAuthenticated (auth (run_calls cs w)) = token_present (auth (run_calls cs w))"
proof (induction cs arbitrary: w)
  case Nil
  then show ?case by simp
next
  case (Cons c cs)
  from Cons.prems have c: "login_tokens_nonempty [c]" and cs: "login_tokens_nonempty cs"
    by (simp_all add: login_tokens_nonempty_def)
  from apply_call_keeps_invariant [OF Cons.prems(1) c] Cons.IH cs show ?case
    by simp
qed

lemma login_tokens_nonempty_take:
  "login_tokens_nonempty cs \<Longrightarrow> login_tokens_nonempty (take n cs)"
  unfolding login_tokens_nonempty_def list_all_iff
  by (meson in_set_takeD)

text \<open>
  C3, as stated, fails: \<^verbatim>\<open>login\<close> sets \<open>isAuthenticated\<close> to true whatever the token,
  so after \<^verbatim>\<open>login("", sarah)\<close> from the initial state \<open>isAuthenticated\<close> is true while
  the in-memory token is the empty string, which is not present. Nor does any other reading
  of "present" rescue the claim: \<^verbatim>\<open>setToken("")\<close> from the initial state leaves the same
  in-memory token with \<open>isAuthenticated\<close> false.
\<close>

theorem login_with_empty_token_breaks_invariant:
  "isAuthenticated (auth (run_calls [Login [] sarah] (boot ''ios'' Map.empty Map.empty [])))
   \<and> \<not> token_present (auth (run_calls [Login [] sarah] (boot ''ios'' Map.empty Map.empty [])))
   \<and> token (auth (run_calls [Login [] sarah] (boot ''ios'' Map.empty Map.empty []))) = Some []
   \<and> token (auth (run_calls [SetToken (Some [])] (boot ''ios'' Map.empty Map.empty []))) = Some []
   \<and> \<not> isAuthenticated (auth (run_calls [SetToken (Some [])] (boot ''ios'' Map.empty Map.empty [])))"
  by (simp add: apply_call_def login_auth setToken_auth io_ok_def boot_def initialState_def
        token_present_def truthy_def)

text \<open>
  C3, amended: for every finite sequence of \<^verbatim>\<open>login\<close>, \<^verbatim>\<open>logout\<close> and \<^verbatim>\<open>setToken\<close>
  calls in which every token handed to \<^verbatim>\<open>login\<close> is a non-empty string, starting from
  the initial session state, after each call has settled (fulfilled or rejected)
  \<open>isAuthenticated\<close> equals "the in-memory token is present (a non-empty string)".
\<close>

theorem isAuthenticated_tracks_token:
  assumes "auth w = initialState" and "login_tokens_nonempty cs"
  shows "isAuthenticated (auth (run_calls (take n cs) w))
           = token_present (auth (run_calls (take n cs) w))"
proof -
  from assms(1) have "isAuthenticated (auth w) = token_present (auth w)"
    by (simp add: initialState_def token_present_def truthy_def)
  with login_tokens_nonempty_take [OF assms(2)] show ?thesis
    by (rule run_calls_keeps_invariant [rotated])
qed

theorem isAuthenticated_tracks_token_witness:
  "auth (boot ''ios'' Map.empty Map.empty [True, False]) = initialState
   \<and> login_tokens_nonempty [Login ''abc'' sarah, SetToken None, SetToken (Some ''xyz''), Logout]
   \<and> isAuthenticated (auth (run_calls (take 3
         [Login ''abc'' sarah, SetToken None, SetToken (Some ''xyz''), Logout])
         (boot ''ios'' Map.empty Map.empty [True, False])))
      = token_present (auth (run_calls (take 3
         [Login ''abc'' sarah, SetToken None, SetToken (Some ''xyz''), Logout])
         (boot ''ios'' Map.empty Map.empty [True, False])))"
proof -
  have a: "auth (boot ''ios'' Map.empty Map.empty [True, False]) = initialState"
    by (simp add: boot_def)
  have b: "login_tokens_nonempty [Login ''abc'' sarah, SetToken None, SetToken (Some ''xyz''), Logout]"
    by (simp add: login_tokens_nonempty_def)
  from a b isAuthenticated_tracks_token [OF a b, of 3] show ?thesis by blast
qed

subsection \<open>Startup resolution\<close>

lemma setToken_settle_isLoading [simp]:
  "isLoading (auth (setToken_settle t r w)) = isLoading (auth w)"
  by (cases r) (simp_all add: setToken_settle_def setToken_commit_def)

lemma settle_pending_isLoading [simp]:
  "isLoading (auth (settle_pending p w)) = isLoading (auth w)"
  by (cases p) (auto simp add: settle_pending_def)

lemma loadAuth_catch_fulfils: "fst (loadAuth_catch sched w p) = Inr ()"
  by (simp add: loadAuth_catch_def split: prod.splits sum.splits)

lemma storage_unhandled [simp]:
  "unhandled (snd (SecureStore_getItemAsync key w)) = unhandled w"
  "unhandled (snd (SecureStore_setItemAsync key v w)) = unhandled w"
  "unhandled (snd (SecureStore_deleteItemAsync key w)) = unhandled w"
  "unhandled (snd (localStorage_getItem key w)) = unhandled w"
  "unhandled (snd (localStorage_setItem key v w)) = unhandled w"
  "unhandled (snd (localStorage_removeItem key w)) = unhandled w"
  "unhandled (snd (storage_getItem key w)) = unhandled w"
  "unhandled (snd (storage_setItem key v w)) = unhandled w"
  "unhandled (snd (storage_deleteItem key w)) = unhandled w"
  by (simp_all add: storage_defs)

lemma request_fulfilled_unhandled [simp]:
  "unhandled (snd (request_fulfilled config w)) = unhandled w"
  by (simp add: request_fulfilled_def)

lemma response_rejected_unhandled [simp]:
  "unhandled (snd (response_rejected error w)) = unhandled w"
  by (simp add: response_rejected_def)

lemma api_request_unhandled [simp]: "unhandled (snd (api_request net config w)) = unhandled w"
  by (simp add: api_request_rejects)

lemma authAPI_getMe_unhandled [simp]: "unhandled (snd (authAPI_getMe net w)) = unhandled w"
  by (simp add: authAPI_getMe_def api_get_def)

text \<open>The rejection that a pending call will leave behind.\<close>

lemma setToken_settle_unhandled:
  "unhandled (setToken_settle t r w) = unhandled w @ (case r of Inl f \<Rightarrow> [f] | Inr _ \<Rightarrow> [])"
  by (cases r) (simp_all add: setToken_settle_def setToken_commit_def)

lemma setToken_persist_fst:
  "fst (setToken_persist t w) = (if io_ok w then Inr () else Inl StorageFault)"
  by (simp add: setToken_persist_def SecureStore_setItemAsync_def SecureStore_deleteItemAsync_def)

lemma setToken_persist_unhandled [simp]:
  "unhandled (snd (setToken_persist t w)) = unhandled w"
  by (simp add: setToken_persist_def)

lemma storage_getItem_result:
  "storage_getItem ''auth_token'' w =
     (if io_ok w then Inr (persisted_token w) else Inl StorageFault, io_next w)"
  by (simp add: storage_getItem_def localStorage_getItem_def SecureStore_getItemAsync_def
        persisted_token_def)

lemma loadAuth_try_unhandled:
  "unhandled (settle_pending (snd (snd (loadAuth_try sched net w))) (fst (snd (loadAuth_try sched net w))))
     = unhandled w @ (if setToken_write_faults w then [StorageFault] else [])"
proof (cases "io_ok w \<and> truthy (persisted_token w)")
  case False
  then show ?thesis
    by (auto simp add: loadAuth_try_def storage_getItem_result setToken_write_faults_def
          settle_pending_def)
next
  case True
  obtain r w2 where p: "setToken_persist (persisted_token w) (io_next w) = (r, w2)"
    by (cases "setToken_persist (persisted_token w) (io_next w)") auto
  from p setToken_persist_fst [of "persisted_token w" "io_next w"]
  have r: "r = (if io_ok (io_next w) then Inr () else Inl StorageFault)" by simp
  from p setToken_persist_unhandled [of "persisted_token w" "io_next w"]
  have u2: "unhandled w2 = unhandled w" by simp
  show ?thesis
  proof (cases "sched = DuringGetMe")
    case d: True
    obtain q w4 where g: "authAPI_getMe net (setToken_settle (persisted_token w) r w2) = (q, w4)"
      by (cases "authAPI_getMe net (setToken_settle (persisted_token w) r w2)") auto
    from g authAPI_getMe_unhandled [of net "setToken_settle (persisted_token w) r w2"]
    have u4: "unhandled w4 = unhandled (setToken_settle (persisted_token w) r w2)" by simp
    from True p d g u4 u2 r show ?thesis
      by (cases q)
         (simp_all add: loadAuth_try_def storage_getItem_result setToken_write_faults_def
            settle_pending_def setToken_settle_unhandled setUser_def)
  next
    case d: False
    obtain q w4 where g: "authAPI_getMe net w2 = (q, w4)"
      by (cases "authAPI_getMe net w2") auto
    from g authAPI_getMe_unhandled [of net w2]
    have u4: "unhandled w4 = unhandled w2" by simp
    from True p d g u4 u2 r show ?thesis
      by (cases q)
         (simp_all add: loadAuth_try_def storage_getItem_result setToken_write_faults_def
            settle_pending_def setToken_settle_unhandled setUser_def)
  qed
qed

lemma settle_pending_unhandled_cong:
  "unhandled w' = unhandled w \<Longrightarrow>
     unhandled (settle_pending p w') = unhandled (settle_pending p w)"
  by (cases p) (auto simp add: settle_pending_def setToken_settle_unhandled)

lemma settle_pending_None [simp]: "settle_pending None w = w"
  by (simp add: settle_pending_def)

lemma loadAuth_catch_unhandled:
  "unhandled (settle_pending (snd (snd (loadAuth_catch sched w p)))
                (fst (snd (loadAuth_catch sched w p))))
     = unhandled (settle_pending p w)"
proof (cases "storage_deleteItem ''auth_token'' w")
  case (Pair r w1)
  with storage_unhandled(9) [of "''auth_token''" w] have "unhandled w1 = unhandled w" by simp
  then have c: "unhandled (settle_pending p w1) = unhandled (settle_pending p w)"
    by (rule settle_pending_unhandled_cong)
  from Pair c show ?thesis
    by (cases r) (simp_all add: loadAuth_catch_def)
qed

lemma loadAuth_unhandled:
  "unhandled (snd (loadAuth sched net w))
     = unhandled w @ (if setToken_write_faults w then [StorageFault] else [])"
proof (cases "loadAuth_try sched net w")
  case (fields r w1 p)
  with loadAuth_try_unhandled [of sched net w]
  have t: "unhandled (settle_pending p w1)
             = unhandled w @ (if setToken_write_faults w then [StorageFault] else [])"
    by simp
  show ?thesis
  proof (cases r)
    case (Inl f)
    obtain r' w2 p' where c: "loadAuth_catch sched w1 p = (r', w2, p')"
      by (cases "loadAuth_catch sched w1 p") auto
    with loadAuth_catch_unhandled [of sched w1 p]
    have "unhandled (settle_pending p' w2) = unhandled (settle_pending p w1)" by simp
    moreover have "unhandled (settle_pending p' (setLoading False w2))
                     = unhandled (settle_pending p' w2)"
      by (rule settle_pending_unhandled_cong) (simp add: setLoading_def)
    ultimately show ?thesis
      using fields Inl c t by (simp add: loadAuth_def loadAuth_run_def)
  next
    case (Inr u)
    have "unhandled (settle_pending p (setLoading False w1)) = unhandled (settle_pending p w1)"
      by (rule settle_pending_unhandled_cong) (simp add: setLoading_def)
    with fields Inr t show ?thesis
      by (simp add: loadAuth_def loadAuth_run_def)
  qed
qed

text \<open>
  C9 states that every run of startup resolution ends with \<open>isLoading = false\<close> whatever
  storage call of the run faults, the write of \<^verbatim>\<open>setToken\<close> included, and that no such
  fault propagates out of startup resolution. The second part fails for that write:
  \<^verbatim>\<open>loadAuth\<close> calls \<^verbatim>\<open>setToken(token)\<close> inside its \<^verbatim>\<open>try\<close> block without
  \<^verbatim>\<open>await\<close>, unlike every other asynchronous call there, so a rejection of
  \<^verbatim>\<open>setToken\<close> is not caught by the \<^verbatim>\<open>catch\<close> block. With the token \<^verbatim>\<open>"abc"\<close>
  persisted, the read succeeding and the write faulting, the run leaves the storage fault
  behind as a rejection that nothing handles, under either schedule shown.
\<close>

theorem loadAuth_setToken_fault_unhandled:
  "setToken_write_faults (boot ''ios'' [''auth_token'' \<mapsto> ''abc''] Map.empty [True, False])
   \<and> unhandled (boot ''ios'' [''auth_token'' \<mapsto> ''abc''] Map.empty [True, False]) = []
   \<and> unhandled (snd (loadAuth DuringGetMe (\<lambda>_. Inr \<lparr>status = 200, data = Some sarah\<rparr>)
          (boot ''ios'' [''auth_token'' \<mapsto> ''abc''] Map.empty [True, False]))) = [StorageFault]
   \<and> unhandled (snd (loadAuth AfterReturn (\<lambda>_. Inl unauthorized)
          (boot ''ios'' [''auth_token'' \<mapsto> ''abc''] Map.empty [True, False]))) = [StorageFault]"
  by code_simp

text \<open>
  What does hold of every run, for every schedule, script of storage outcomes and network:
  it ends with \<open>isLoading = false\<close>, when \<^verbatim>\<open>loadAuth\<close> returns and when everything it
  started has settled; the promise of \<^verbatim>\<open>loadAuth\<close> itself is never rejected; and a
  rejection is left unhandled only when the write of \<^verbatim>\<open>setToken\<close> faults.
\<close>

theorem loadAuth_always_stops_loading:
  "fst (loadAuth_run sched net w) = Inr ()
   \<and> \<not> isLoading (auth (fst (snd (loadAuth_run sched net w))))
   \<and> fst (loadAuth sched net w) = Inr ()
   \<and> \<not> isLoading (auth (snd (loadAuth sched net w)))
   \<and> (\<not> setToken_write_faults w \<longrightarrow> unhandled (snd (loadAuth sched net w)) = unhandled w)"
proof -
  have "fst (loadAuth_run sched net w) = Inr ()
        \<and> \<not> isLoading (auth (fst (snd (loadAuth_run sched net w))))
        \<and> fst (loadAuth sched net w) = Inr ()
        \<and> \<not> isLoading (auth (snd (loadAuth sched net w)))"
  proof (cases "loadAuth_try sched net w")
    case (fields r w1 p)
    show ?thesis
    proof (cases r)
      case (Inl f)
      obtain r' w2 p' where c: "loadAuth_catch sched w1 p = (r', w2, p')"
        by (cases "loadAuth_catch sched w1 p") auto
      with loadAuth_catch_fulfils [of sched w1 p] have "r' = Inr ()" by simp
      with fields Inl c show ?thesis
        by (simp add: loadAuth_def loadAuth_run_def setLoading_def)
    next
      case (Inr u)
      with fields show ?thesis
        by (simp add: loadAuth_def loadAuth_run_def setLoading_def)
    qed
  qed
  with loadAuth_unhandled [of sched net w] show ?thesis by simp
qed

theorem loadAuth_always_stops_loading_witness:
  "\<not> setToken_write_faults
       (boot ''ios'' [''auth_token'' \<mapsto> ''abc''] Map.empty [True, True, False, False])
   \<and> fst (loadAuth DuringDelete (\<lambda>_. Inl unauthorized)
          (boot ''ios'' [''auth_token'' \<mapsto> ''abc''] Map.empty [True, True, False, False]))
     = Inr ()
   \<and> \<not> isLoading (auth (snd (loadAuth DuringDelete (\<lambda>_. Inl unauthorized)
          (boot ''ios'' [''auth_token'' \<mapsto> ''abc''] Map.empty [True, True, False, False]))))
   \<and> unhandled (snd (loadAuth DuringDelete (\<lambda>_. Inl unauthorized)
          (boot ''ios'' [''auth_token'' \<mapsto> ''abc''] Map.empty [True, True, False, False])))
     = unhandled (boot ''ios'' [''auth_token'' \<mapsto> ''abc''] Map.empty [True, True, False, False])"
proof -
  have h: "\<not> setToken_write_faults
       (boot ''ios'' [''auth_token'' \<mapsto> ''abc''] Map.empty [True, True, False, False])"
    by (simp add: setToken_write_faults_def io_ok_def io_next_def boot_def)
  with loadAuth_always_stops_loading [of DuringDelete "\<lambda>_. Inl unauthorized"
          "boot ''ios'' [''auth_token'' \<mapsto> ''abc''] Map.empty [True, True, False, False]"]
  show ?thesis by blast
qed

text \<open>
  Since every call through the API client is rejected, a run that finds a token takes the
  \<^verbatim>\<open>catch\<close> path even when the profile endpoint would answer with the profile.
\<close>

lemma loadAuth_profile_never_loaded_example:
  "auth (snd (loadAuth DuringGetMe (\<lambda>_. Inr \<lparr>status = 200, data = Some sarah\<rparr>)
            (boot ''ios'' [''auth_token'' \<mapsto> ''abc''] Map.empty [])))
     = \<lparr>user = None, token = Some ''abc'', isLoading = False, isAuthenticated = True\<rparr>
   \<and> sent_requests (snd (loadAuth DuringGetMe (\<lambda>_. Inr \<lparr>status = 200, data = Some sarah\<rparr>)
            (boot ''ios'' [''auth_token'' \<mapsto> ''abc''] Map.empty []))) = []"
  by code_simp

lemma loadAuth_no_token_example:
  "auth (snd (loadAuth DuringGetMe net (boot ''ios'' Map.empty Map.empty [])))
     = \<lparr>user = None, token = None, isLoading = False, isAuthenticated = False\<rparr>
   \<and> sent_requests (snd (loadAuth DuringGetMe net (boot ''ios'' Map.empty Map.empty []))) = []"
  by (simp add: loadAuth_def loadAuth_run_def loadAuth_try_def storage_getItem_def
        SecureStore_getItemAsync_def io_ok_def boot_def truthy_def setLoading_def
        settle_pending_def initialState_def sent_requests_def)

lemma loadAuth_read_fault_example:
  "fst (loadAuth DuringGetMe (\<lambda>_. Inl unauthorized)
          (boot ''ios'' [''auth_token'' \<mapsto> ''abc''] Map.empty [False, False])) = Inr ()
   \<and> auth (snd (loadAuth DuringGetMe (\<lambda>_. Inl unauthorized)
            (boot ''ios'' [''auth_token'' \<mapsto> ''abc''] Map.empty [False, False])))
     = \<lparr>user = None, token = None, isLoading = False, isAuthenticated = False\<rparr>
   \<and> unhandled (snd (loadAuth DuringGetMe (\<lambda>_. Inl unauthorized)
            (boot ''ios'' [''auth_token'' \<mapsto> ''abc''] Map.empty [False, False]))) = []"
  by code_simp

text \<open>
  C2 states that a run with a persisted token whose profile request fails ends with
  \<open>isLoading = false\<close>, \<open>isAuthenticated = false\<close>, the persisted token deleted and no user
  in memory. The code does not reach that state: with the token \<^verbatim>\<open>"abc"\<close> persisted and
  the profile endpoint answering 401, the run ends with the persisted token deleted and no
  user, but with the token still in memory and \<open>isAuthenticated = true\<close>, under every
  schedule, because the \<^verbatim>\<open>catch\<close> block deletes the persisted token only and never undoes
  the \<^verbatim>\<open>setToken(token)\<close> that preceded the request. (The profile request fails in the
  client already, before it is sent; the \<^verbatim>\<open>catch\<close> block runs the same for any failure
  of the request.)
\<close>

theorem loadAuth_on_401_stays_authenticated:
  "auth (snd (loadAuth DuringGetMe (\<lambda>_. Inl unauthorized)
            (boot ''ios'' [''auth_token'' \<mapsto> ''abc''] Map.empty [])))
     = \<lparr>user = None, token = Some ''abc'', isLoading = False, isAuthenticated = True\<rparr>
   \<and> auth (snd (loadAuth DuringDelete (\<lambda>_. Inl unauthorized)
            (boot ''ios'' [''auth_token'' \<mapsto> ''abc''] Map.empty [])))
     = \<lparr>user = None, token = Some ''abc'', isLoading = False, isAuthenticated = True\<rparr>
   \<and> auth (snd (loadAuth AfterReturn (\<lambda>_. Inl unauthorized)
            (boot ''ios'' [''auth_token'' \<mapsto> ''abc''] Map.empty [])))
     = \<lparr>user = None, token = Some ''abc'', isLoading = False, isAuthenticated = True\<rparr>
   \<and> secureStore (snd (loadAuth DuringGetMe (\<lambda>_. Inl unauthorized)
            (boot ''ios'' [''auth_token'' \<mapsto> ''abc''] Map.empty []))) ''auth_token'' = None
   \<and> unhandled (snd (loadAuth DuringGetMe (\<lambda>_. Inl unauthorized)
            (boot ''ios'' [''auth_token'' \<mapsto> ''abc''] Map.empty []))) = []"
  by code_simp

text \<open>The same for every persisted non-empty token and every network, on a native platform
  with no storage fault.\<close>

lemma io_next_idle: "io_script w = [] \<Longrightarrow> io_next w = w"
  by (simp add: io_next_def)

lemma io_ok_idle: "io_script w = [] \<Longrightarrow> io_ok w"
  by (simp add: io_ok_def)

lemma loadAuth_request_failure_keeps_token:
  assumes idle: "io_script w = []" and native: "platformOS w \<noteq> ''web''"
    and tok: "secureStore w ''auth_token'' = Some t" "t \<noteq> []"
  shows "\<not> isLoading (auth (snd (loadAuth sched net w)))
         \<and> isAuthenticated (auth (snd (loadAuth sched net w)))
         \<and> token (auth (snd (loadAuth sched net w))) = Some t"
  using assms
  by (cases sched)
     (simp_all add: loadAuth_def loadAuth_run_def loadAuth_try_def loadAuth_catch_def
        settle_pending_def setToken_settle_def setToken_persist_def setToken_commit_def
        authAPI_getMe_def api_get_def api_request_def request_fulfilled_def response_rejected_def
        setLoading_def storage_getItem_def storage_deleteItem_def SecureStore_getItemAsync_def
        SecureStore_setItemAsync_def SecureStore_deleteItemAsync_def
        io_ok_idle io_next_idle io_ok_def truthy_def)

end
